theory Spec2Isabelle
  imports Main
begin

section \<open>Debug records as the DWARF reader hands them to struct2java.py\<close>

text \<open>
  The script reads an attribute through \<open>DIE.attributes\<close>, a dictionary from the
  attribute's name to a value. The reader produces three kinds of value: a byte string
  (the string forms, used by \<open>DW_AT_name\<close>), an integer (constants, references and
  flags) and a list of integers (the block forms). A byte string is a \<open>string\<close>, one
  \<open>char\<close> per byte; so is a name after \<open>decode('ascii')\<close>, which keeps every byte as
  the code point of the same value.
\<close>

datatype attr_value = BytesVal string | IntVal int | ListVal "int list"

text \<open>
  A debug record: \<open>DIE.tag\<close>, \<open>DIE.attributes\<close> (an ordered dictionary, looked up
  with \<open>map_of\<close>), \<open>DIE.offset\<close> (where the record starts in the debug-info
  section), \<open>DIE.cu.cu_offset\<close> (where its compilation unit starts) and the records
  that \<open>DIE.iter_children()\<close> yields, in order.
\<close>

datatype DIE =
  DIE (tag: string) (attributes: "(string \<times> attr_value) list") (offset: int)
      (cu_offset: int) (iter_children: "DIE list")

text \<open>
  Every way the script stops early. The first three are the calls of \<open>die\<close>, which
  writes one line to standard error and exits with status 1:
  \<open>die('file does not contain debug information')\<close> (line 46),
  \<open>die('could not find struct %s', args.struct)\<close> (line 76) and
  \<open>die('unknown child of struct DIE: %r', child_DIE)\<close> (line 85).
  The others are the Python exceptions the script's own expressions raise and nothing
  catches: a missing dictionary key, a name that is not ASCII, \<open>.decode\<close> on a value
  that is not a byte string, and \<open>+\<close> or \<open>%x\<close> on a value that is not an integer.
\<close>

datatype error =
    Die_no_debug_information
  | Die_could_not_find_struct string
  | Die_unknown_child DIE
  | KeyError string
  | UnicodeDecodeError
  | AttributeError
  | TypeError

definition is_ascii :: "string \<Rightarrow> bool" where
  "is_ascii bs = list_all (\<lambda>c. (of_char c :: nat) < 128) bs"

text \<open>Lines 36-41: the decoded \<open>DW_AT_name\<close>, or Python's \<open>None\<close>.\<close>

definition DIE_to_name :: "DIE \<Rightarrow> error + string option" where
  "DIE_to_name d =
     (case map_of (attributes d) ''DW_AT_name'' of
        None \<Rightarrow> Inr None
      | Some (BytesVal bs) \<Rightarrow> if is_ascii bs then Inr (Some bs) else Inl UnicodeDecodeError
      | Some _ \<Rightarrow> Inl AttributeError)"

section \<open>Building the three dictionaries (lines 50-65)\<close>

record indexes =
  structs_by_offset :: "int \<rightharpoonup> DIE"
  structs_by_name :: "string \<rightharpoonup> DIE"
  typedefs_by_name :: "string \<rightharpoonup> DIE"

definition empty_indexes :: indexes where
  "empty_indexes =
     \<lparr>structs_by_offset = Map.empty, structs_by_name = Map.empty,
      typedefs_by_name = Map.empty\<rparr>"

text \<open>Lines 56-59: the first \<open>if\<close> of the loop body.\<close>

definition index_typedef :: "indexes \<Rightarrow> DIE \<Rightarrow> error + indexes" where
  "index_typedef ix d =
     (if tag d = ''DW_TAG_typedef'' then
        (case DIE_to_name d of
           Inl e \<Rightarrow> Inl e
         | Inr None \<Rightarrow> Inr ix
         | Inr (Some name) \<Rightarrow> Inr (ix\<lparr>typedefs_by_name := (typedefs_by_name ix)(name \<mapsto> d)\<rparr>))
      else Inr ix)"

text \<open>Lines 61-65: the second \<open>if\<close>; the offset entry is written before the name is read.\<close>

definition index_struct :: "indexes \<Rightarrow> DIE \<Rightarrow> error + indexes" where
  "index_struct ix d =
     (if tag d = ''DW_TAG_structure_type'' then
        (let ix' = ix\<lparr>structs_by_offset := (structs_by_offset ix)(offset d \<mapsto> d)\<rparr> in
         case DIE_to_name d of
           Inl e \<Rightarrow> Inl e
         | Inr None \<Rightarrow> Inr ix'
         | Inr (Some name) \<Rightarrow> Inr (ix'\<lparr>structs_by_name := (structs_by_name ix')(name \<mapsto> d)\<rparr>))
      else Inr ix)"

definition index_DIE :: "indexes \<Rightarrow> DIE \<Rightarrow> error + indexes" where
  "index_DIE ix d =
     (case index_typedef ix d of Inl e \<Rightarrow> Inl e | Inr ix' \<Rightarrow> index_struct ix' d)"

text \<open>Line 55: the records of one compilation unit, as \<open>CU.iter_DIEs()\<close> yields them.\<close>

fun index_DIEs :: "indexes \<Rightarrow> DIE list \<Rightarrow> error + indexes" where
  "index_DIEs ix [] = Inr ix"
| "index_DIEs ix (d # ds) =
     (case index_DIE ix d of Inl e \<Rightarrow> Inl e | Inr ix' \<Rightarrow> index_DIEs ix' ds)"

text \<open>Line 54: the compilation units, as \<open>dwarfinfo.iter_CUs()\<close> yields them.\<close>

fun index_CUs :: "indexes \<Rightarrow> DIE list list \<Rightarrow> error + indexes" where
  "index_CUs ix [] = Inr ix"
| "index_CUs ix (cu # cus) =
     (case index_DIEs ix cu of Inl e \<Rightarrow> Inl e | Inr ix' \<Rightarrow> index_CUs ix' cus)"

definition build :: "DIE list list \<Rightarrow> error + indexes" where
  "build cus = index_CUs empty_indexes cus"

section \<open>Finding the struct (lines 67-76)\<close>

text \<open>
  Lines 67-73. \<open>Inr None\<close> is the variable \<open>struct\<close> left at \<open>None\<close>; the subscript
  \<open>td.attributes['DW_AT_type']\<close> raises when the typedef has no such attribute.
\<close>

definition struct_lookup :: "indexes \<Rightarrow> string \<Rightarrow> error + DIE option" where
  "struct_lookup ix name =
     (case structs_by_name ix name of
        Some s \<Rightarrow> Inr (Some s)
      | None \<Rightarrow>
          (case typedefs_by_name ix name of
             None \<Rightarrow> Inr None
           | Some td \<Rightarrow>
               (case map_of (attributes td) ''DW_AT_type'' of
                  None \<Rightarrow> Inl (KeyError ''DW_AT_type'')
                | Some (IntVal v) \<Rightarrow> Inr (structs_by_offset ix (v + cu_offset td))
                | Some _ \<Rightarrow> Inl TypeError)))"

text \<open>Lines 67-76: the lookup, then \<open>die\<close> when nothing was found.\<close>

definition resolveStruct :: "indexes \<Rightarrow> string \<Rightarrow> error + DIE" where
  "resolveStruct ix name =
     (case struct_lookup ix name of
        Inl e \<Rightarrow> Inl e
      | Inr None \<Rightarrow> Inl (Die_could_not_find_struct name)
      | Inr (Some s) \<Rightarrow> Inr s)"

section \<open>Printing the class (lines 78-87)\<close>

text \<open>
  Standard output is the list of the lines printed so far. Each \<open>print\<close> of the
  script is one constructor, holding the arguments of its format string:
  line 78, line 83 and line 87.
\<close>

datatype line = ClassHeader string | Constant "string option" int | ClassFooter

text \<open>
  Lines 79-85, from standard output \<open>out\<close> on: the output when the loop stops, and
  the error that stopped it, if any. The name is read first, then the offset; the
  line is printed only when both are there.
\<close>

fun member_loop :: "line list \<Rightarrow> DIE list \<Rightarrow> line list \<times> error option" where
  "member_loop out [] = (out, None)"
| "member_loop out (child_DIE # rest) =
     (if tag child_DIE = ''DW_TAG_member'' then
        (case DIE_to_name child_DIE of
           Inl e \<Rightarrow> (out, Some e)
         | Inr name \<Rightarrow>
             (case map_of (attributes child_DIE) ''DW_AT_data_member_location'' of
                None \<Rightarrow> (out, Some (KeyError ''DW_AT_data_member_location''))
              | Some (IntVal off) \<Rightarrow> member_loop (out @ [Constant name off]) rest
              | Some _ \<Rightarrow> (out, Some TypeError)))
      else (out, Some (Die_unknown_child child_DIE)))"

text \<open>Lines 78-87 for the struct found.\<close>

definition print_class :: "string \<Rightarrow> DIE \<Rightarrow> line list \<times> error option" where
  "print_class name s =
     (case member_loop [ClassHeader name] (iter_children s) of
        (out, Some e) \<Rightarrow> (out, Some e)
      | (out, None) \<Rightarrow> (out @ [ClassFooter], None))"

text \<open>Lines 67-87 on the dictionaries built.\<close>

definition run :: "indexes \<Rightarrow> string \<Rightarrow> line list \<times> error option" where
  "run ix name =
     (case resolveStruct ix name of
        Inl e \<Rightarrow> ([], Some e)
      | Inr s \<Rightarrow> print_class name s)"

text \<open>
  Lines 43-87. The opened file is what the script asks of it: \<open>has_dwarf_info()\<close>
  and the compilation units of \<open>get_dwarf_info()\<close>. The second argument is
  \<open>args.struct\<close>. A result \<open>(out, None)\<close> is exit status 0.
\<close>

record elffile =
  has_dwarf_info :: bool
  iter_CUs :: "DIE list list"

definition main :: "elffile \<Rightarrow> string \<Rightarrow> line list \<times> error option" where
  "main f name =
     (if \<not> has_dwarf_info f then ([], Some Die_no_debug_information)
      else (case build (iter_CUs f) of
              Inl e \<Rightarrow> ([], Some e)
            | Inr ix \<Rightarrow> run ix name))"

subsection \<open>The text of each line\<close>

definition hex_digit :: "nat \<Rightarrow> char" where
  "hex_digit n = ''0123456789abcdef'' ! n"

fun hex_nat :: "nat \<Rightarrow> string" where
  "hex_nat n = (if n < 16 then [hex_digit n] else hex_nat (n div 16) @ [hex_digit (n mod 16)])"

text \<open>Python's \<open>'%x' % i\<close>: the sign, then the digits of the absolute value.\<close>

definition fmt_x :: "int \<Rightarrow> string" where
  "fmt_x i = (if i < 0 then CHR ''-'' # hex_nat (nat (- i)) else hex_nat (nat i))"

text \<open>Python's \<open>'%s' % name\<close> for a name that may be \<open>None\<close>.\<close>

definition fmt_s :: "string option \<Rightarrow> string" where
  "fmt_s name = (case name of None \<Rightarrow> ''None'' | Some n \<Rightarrow> n)"

fun render :: "line \<Rightarrow> string" where
  "render (ClassHeader name) = ''final class '' @ name @ '' {''"
| "render (Constant name off) =
     ''  public static final int '' @ fmt_s name @ '' = 0x'' @ fmt_x off @ '';''"
| "render ClassFooter = ''}''"

section \<open>What the dictionaries are asked to hold\<close>

text \<open>
  A record that the loop enters under the name \<open>n\<close> in \<open>structs_by_name\<close>, under
  \<open>n\<close> in \<open>typedefs_by_name\<close>, and under the offset \<open>k\<close> in
  \<open>structs_by_offset\<close>.
\<close>

definition is_struct_named :: "string \<Rightarrow> DIE \<Rightarrow> bool" where
  "is_struct_named n d \<longleftrightarrow> tag d = ''DW_TAG_structure_type'' \<and> DIE_to_name d = Inr (Some n)"

definition is_typedef_named :: "string \<Rightarrow> DIE \<Rightarrow> bool" where
  "is_typedef_named n d \<longleftrightarrow> tag d = ''DW_TAG_typedef'' \<and> DIE_to_name d = Inr (Some n)"

definition is_struct_at :: "int \<Rightarrow> DIE \<Rightarrow> bool" where
  "is_struct_at k d \<longleftrightarrow> tag d = ''DW_TAG_structure_type'' \<and> offset d = k"

section \<open>An object file of two compilation units\<close>

text \<open>
  The records below are what the reader yields for two C files. The first unit starts
  at 64 in the debug-info section, the second at 200; a \<open>DW_AT_type\<close> holds the
  target's distance from the start of its own unit.
\<close>

definition member_DIE :: "string \<Rightarrow> int \<Rightarrow> int \<Rightarrow> int \<Rightarrow> DIE" where
  "member_DIE name loc off cu =
     DIE ''DW_TAG_member''
       [(''DW_AT_name'', BytesVal name), (''DW_AT_data_member_location'', IntVal loc)] off cu []"

definition typedef_DIE :: "string \<Rightarrow> int \<Rightarrow> int \<Rightarrow> int \<Rightarrow> DIE" where
  "typedef_DIE name ref off cu =
     DIE ''DW_TAG_typedef'' [(''DW_AT_name'', BytesVal name), (''DW_AT_type'', IntVal ref)] off cu []"

definition struct_DIE :: "string \<Rightarrow> int \<Rightarrow> int \<Rightarrow> DIE list \<Rightarrow> DIE" where
  "struct_DIE name off cu ms = DIE ''DW_TAG_structure_type'' [(''DW_AT_name'', BytesVal name)] off cu ms"

text \<open>Unit A: \<open>struct Point { int x; int y; }; typedef struct Point Point_t;\<close>\<close>

definition int_A :: DIE where
  "int_A = DIE ''DW_TAG_base_type'' [(''DW_AT_name'', BytesVal ''int'')] 94 64 []"

definition Point_A :: DIE where
  "Point_A = struct_DIE ''Point'' 104 64 [member_DIE ''x'' 0 110 64, member_DIE ''y'' 4 120 64]"

definition Point_t_A :: DIE where
  "Point_t_A = typedef_DIE ''Point_t'' 40 130 64"

text \<open>\<open>typedef Point_t Point_tt;\<close> (a typedef of a typedef) and \<open>typedef int myint;\<close>\<close>

definition Point_tt_A :: DIE where
  "Point_tt_A = typedef_DIE ''Point_tt'' 66 140 64"

definition myint_A :: DIE where
  "myint_A = typedef_DIE ''myint'' 30 150 64"

text \<open>\<open>typedef void void_t;\<close>: the typedef of \<open>void\<close> has no \<open>DW_AT_type\<close>.\<close>

definition void_t_A :: DIE where
  "void_t_A = DIE ''DW_TAG_typedef'' [(''DW_AT_name'', BytesVal ''void_t'')] 160 64 []"

text \<open>\<open>struct X { int a; }; typedef struct Point X;\<close>: a struct and a typedef of one name.\<close>

definition X_struct_A :: DIE where
  "X_struct_A = struct_DIE ''X'' 170 64 [member_DIE ''a'' 0 175 64]"

definition X_typedef_A :: DIE where
  "X_typedef_A = typedef_DIE ''X'' 40 180 64"

definition unit_A :: "DIE list" where
  "unit_A =
     [int_A, Point_A, member_DIE ''x'' 0 110 64, member_DIE ''y'' 4 120 64, Point_t_A,
      Point_tt_A, myint_A, void_t_A, X_struct_A, member_DIE ''a'' 0 175 64, X_typedef_A]"

text \<open>
  Unit B has a \<open>struct Point\<close> of its own, with another layout, and
  \<open>typedef struct { short w; short h; } Size_t;\<close>, a typedef of a struct with no name.
\<close>

definition Point_B :: DIE where
  "Point_B = struct_DIE ''Point'' 240 200 [member_DIE ''x'' 0 245 200, member_DIE ''y'' 8 250 200]"

definition Size_B :: DIE where
  "Size_B =
     DIE ''DW_TAG_structure_type'' [(''DW_AT_byte_size'', IntVal 4)] 260 200
       [member_DIE ''w'' 0 265 200, member_DIE ''h'' 2 270 200]"

definition Size_t_B :: DIE where
  "Size_t_B = typedef_DIE ''Size_t'' 60 280 200"

text \<open>\<open>struct Rect { int m1; int m2; }; typedef struct Rect Rect_t;\<close>\<close>

definition Rect_B :: DIE where
  "Rect_B = struct_DIE ''Rect'' 300 200 [member_DIE ''m1'' 0 305 200, member_DIE ''m2'' 4 310 200]"

definition Rect_t_B :: DIE where
  "Rect_t_B = typedef_DIE ''Rect_t'' 100 320 200"

text \<open>
  \<open>struct Holey { union { int i; float f; }; int tail; };\<close>: the member that holds
  the union has no \<open>DW_AT_name\<close>.
\<close>

definition Holey_B :: DIE where
  "Holey_B =
     struct_DIE ''Holey'' 340 200
       [DIE ''DW_TAG_member'' [(''DW_AT_data_member_location'', IntVal 0)] 345 200 [],
        member_DIE ''tail'' 4 350 200]"

text \<open>
  \<open>struct Broken\<close>: its second member has no \<open>DW_AT_data_member_location\<close>, as
  a member declared without a fixed place has none.
\<close>

definition Broken_B :: DIE where
  "Broken_B =
     struct_DIE ''Broken'' 360 200
       [member_DIE ''a'' 0 365 200,
        DIE ''DW_TAG_member'' [(''DW_AT_name'', BytesVal ''b'')] 370 200 [],
        member_DIE ''c'' 8 375 200]"

definition myint_B :: DIE where
  "myint_B = typedef_DIE ''myint'' 90 380 200"

definition int_B :: DIE where
  "int_B = DIE ''DW_TAG_base_type'' [(''DW_AT_name'', BytesVal ''int'')] 290 200 []"

definition unit_B :: "DIE list" where
  "unit_B =
     [Point_B, member_DIE ''x'' 0 245 200, member_DIE ''y'' 8 250 200, Size_B, Size_t_B,
      int_B, Rect_B, Rect_t_B, Holey_B, Broken_B, myint_B]"

definition example_file :: elffile where
  "example_file = \<lparr>has_dwarf_info = True, iter_CUs = [unit_A, unit_B]\<rparr>"

text \<open>The dictionaries the script has built when it has read both units.\<close>

definition example_indexes :: indexes where
  "example_indexes =
     \<lparr>structs_by_offset =
        [104 \<mapsto> Point_A, 170 \<mapsto> X_struct_A, 240 \<mapsto> Point_B, 260 \<mapsto> Size_B,
         300 \<mapsto> Rect_B, 340 \<mapsto> Holey_B, 360 \<mapsto> Broken_B],
      structs_by_name =
        [''Point'' \<mapsto> Point_B, ''X'' \<mapsto> X_struct_A, ''Rect'' \<mapsto> Rect_B,
         ''Holey'' \<mapsto> Holey_B, ''Broken'' \<mapsto> Broken_B],
      typedefs_by_name =
        [''Point_t'' \<mapsto> Point_t_A, ''Point_tt'' \<mapsto> Point_tt_A, ''myint'' \<mapsto> myint_B,
         ''void_t'' \<mapsto> void_t_A, ''X'' \<mapsto> X_typedef_A, ''Size_t'' \<mapsto> Size_t_B,
         ''Rect_t'' \<mapsto> Rect_t_B]\<rparr>"

text \<open>
  The same \<open>struct Rect\<close> as an older compiler describes it (DWARF 2): the place of
  a member is a block, the operation \<open>DW_OP_plus_uconst\<close> (35) and its operand, which
  the reader hands over as a list of integers.
\<close>

definition m1_dwarf2 :: DIE where
  "m1_dwarf2 =
     DIE ''DW_TAG_member''
       [(''DW_AT_name'', BytesVal ''m1''), (''DW_AT_data_member_location'', ListVal [35, 0])]
       50 0 []"

definition m2_dwarf2 :: DIE where
  "m2_dwarf2 =
     DIE ''DW_TAG_member''
       [(''DW_AT_name'', BytesVal ''m2''), (''DW_AT_data_member_location'', ListVal [35, 4])]
       60 0 []"

definition Rect_dwarf2 :: DIE where
  "Rect_dwarf2 = struct_DIE ''Rect'' 45 0 [m1_dwarf2, m2_dwarf2]"

definition dwarf2_file :: elffile where
  "dwarf2_file = \<lparr>has_dwarf_info = True, iter_CUs = [[Rect_dwarf2, m1_dwarf2, m2_dwarf2]]\<rparr>"

section \<open>Evaluation\<close>

declare hex_nat.simps [simp del]

lemmas example_defs =
  member_DIE_def typedef_DIE_def struct_DIE_def int_A_def Point_A_def Point_t_A_def
  Point_tt_A_def myint_A_def void_t_A_def X_struct_A_def X_typedef_A_def unit_A_def
  Point_B_def Size_B_def Size_t_B_def Rect_B_def Rect_t_B_def Holey_B_def Broken_B_def
  myint_B_def int_B_def unit_B_def example_file_def

lemmas find_defs =
  is_struct_named_def is_typedef_named_def is_struct_at_def DIE_to_name_def is_ascii_def

lemmas run_defs =
  main_def build_def run_def resolveStruct_def struct_lookup_def print_class_def
  index_DIE_def index_typedef_def index_struct_def DIE_to_name_def is_ascii_def
  empty_indexes_def

lemma build_example: "build (iter_CUs example_file) = Inr example_indexes"
  unfolding example_indexes_def
  by (simp add: run_defs example_defs fun_eq_iff)

section \<open>The loops, one step at a time\<close>

lemma find_snoc:
  "find P (xs @ [x]) =
     (case find P xs of Some y \<Rightarrow> Some y | None \<Rightarrow> if P x then Some x else None)"
  by (induction xs) auto

text \<open>Searching the reversed list finds the last element with the property.\<close>

lemma find_rev_last:
  assumes "P d" and "\<forall>e\<in>set post. \<not> P e"
  shows "find P (rev (pre @ d # post)) = Some d"
proof -
  have "find P (rev post) = None"
    using assms(2) by (simp add: find_None_iff)
  then show ?thesis
    using assms(1) by (induction post rule: rev_induct) (auto simp: find_snoc split: option.splits if_splits)
qed

lemma index_DIE_structs_by_name:
  "index_DIE ix d = Inr ix' \<Longrightarrow>
   structs_by_name ix' n = (if is_struct_named n d then Some d else structs_by_name ix n)"
  by (auto simp: index_DIE_def index_typedef_def index_struct_def is_struct_named_def Let_def
           split: if_splits sum.splits option.splits)

lemma index_DIE_typedefs_by_name:
  "index_DIE ix d = Inr ix' \<Longrightarrow>
   typedefs_by_name ix' n = (if is_typedef_named n d then Some d else typedefs_by_name ix n)"
  by (auto simp: index_DIE_def index_typedef_def index_struct_def is_typedef_named_def Let_def
           split: if_splits sum.splits option.splits)

lemma index_DIE_structs_by_offset:
  "index_DIE ix d = Inr ix' \<Longrightarrow>
   structs_by_offset ix' k = (if is_struct_at k d then Some d else structs_by_offset ix k)"
  by (auto simp: index_DIE_def index_typedef_def index_struct_def is_struct_at_def Let_def
           split: if_splits sum.splits option.splits)

text \<open>
  After the inner loop, a key holds the last record of the unit entered under it, and
  what it held before the loop when the unit has none.
\<close>

lemma index_DIEs_structs_by_name:
  "index_DIEs ix ds = Inr ix' \<Longrightarrow>
   structs_by_name ix' n =
     (case find (is_struct_named n) (rev ds) of
        Some d \<Rightarrow> Some d | None \<Rightarrow> structs_by_name ix n)"
proof (induction ds arbitrary: ix)
  case Nil
  then show ?case by simp
next
  case (Cons d ds)
  from Cons.prems obtain ix1
    where 1: "index_DIE ix d = Inr ix1" and 2: "index_DIEs ix1 ds = Inr ix'"
    by (auto split: sum.splits)
  show ?case
    using Cons.IH [OF 2] index_DIE_structs_by_name [OF 1, of n]
    by (simp add: find_snoc split: option.splits)
qed

lemma index_DIEs_typedefs_by_name:
  "index_DIEs ix ds = Inr ix' \<Longrightarrow>
   typedefs_by_name ix' n =
     (case find (is_typedef_named n) (rev ds) of
        Some d \<Rightarrow> Some d | None \<Rightarrow> typedefs_by_name ix n)"
proof (induction ds arbitrary: ix)
  case Nil
  then show ?case by simp
next
  case (Cons d ds)
  from Cons.prems obtain ix1
    where 1: "index_DIE ix d = Inr ix1" and 2: "index_DIEs ix1 ds = Inr ix'"
    by (auto split: sum.splits)
  show ?case
    using Cons.IH [OF 2] index_DIE_typedefs_by_name [OF 1, of n]
    by (simp add: find_snoc split: option.splits)
qed

lemma index_DIEs_structs_by_offset:
  "index_DIEs ix ds = Inr ix' \<Longrightarrow>
   structs_by_offset ix' k =
     (case find (is_struct_at k) (rev ds) of
        Some d \<Rightarrow> Some d | None \<Rightarrow> structs_by_offset ix k)"
proof (induction ds arbitrary: ix)
  case Nil
  then show ?case by simp
next
  case (Cons d ds)
  from Cons.prems obtain ix1
    where 1: "index_DIE ix d = Inr ix1" and 2: "index_DIEs ix1 ds = Inr ix'"
    by (auto split: sum.splits)
  show ?case
    using Cons.IH [OF 2] index_DIE_structs_by_offset [OF 1, of k]
    by (simp add: find_snoc split: option.splits)
qed

text \<open>The two nested loops are one loop over the records of all units in sequence.\<close>

lemma index_DIEs_append:
  "index_DIEs ix (xs @ ys) =
     (case index_DIEs ix xs of Inl e \<Rightarrow> Inl e | Inr ix' \<Rightarrow> index_DIEs ix' ys)"
  by (induction xs arbitrary: ix) (auto split: sum.splits)

lemma index_CUs_concat: "index_CUs ix cus = index_DIEs ix (concat cus)"
  by (induction cus arbitrary: ix) (auto simp: index_DIEs_append split: sum.splits)

text \<open>The member loop only appends to what is already printed.\<close>

lemma member_loop_out:
  "member_loop out cs = (out @ fst (member_loop [] cs), snd (member_loop [] cs))"
proof (induction cs arbitrary: out)
  case Nil
  then show ?case by simp
next
  case (Cons c cs)
  show ?case
    using Cons.IH [of "out @ [Constant n off]" for n off] Cons.IH [of "[Constant n off]" for n off]
    by (auto split: sum.splits option.splits attr_value.splits)
qed

text \<open>
  Over members that each have a readable name (or none) and an integer offset, the loop
  prints one line per member and goes on.
\<close>

lemma member_loop_prefix:
  assumes "\<forall>p\<in>set pre. tag p = ''DW_TAG_member'' \<and> DIE_to_name p = Inr (nm p) \<and>
             map_of (attributes p) ''DW_AT_data_member_location'' = Some (IntVal (off p))"
  shows "member_loop out (pre @ rest) =
           member_loop (out @ map (\<lambda>p. Constant (nm p) (off p)) pre) rest"
  using assms by (induction pre arbitrary: out) auto

lemma print_class_shape:
  "print_class name s =
     (case snd (member_loop [] (iter_children s)) of
        Some e \<Rightarrow> (ClassHeader name # fst (member_loop [] (iter_children s)), Some e)
      | None \<Rightarrow> (ClassHeader name # fst (member_loop [] (iter_children s)) @ [ClassFooter], None))"
  by (simp add: print_class_def member_loop_out [of "[ClassHeader name]"] split: option.splits)

text \<open>
  What the loop alone prints is constants, at most one per child, and fewer than the
  children when it stops on an error; a member with no offset makes it stop.
\<close>

lemma member_loop_single:
  "member_loop [x] cs = (x # fst (member_loop [] cs), snd (member_loop [] cs))"
  using member_loop_out [of "[x]" cs] by simp

lemma member_loop_Constants:
  "l \<in> set (fst (member_loop [] cs)) \<Longrightarrow> \<exists>n k. l = Constant n k"
  by (induction cs arbitrary: l)
     (auto simp: member_loop_single split: if_splits sum.splits option.splits attr_value.splits)

lemma member_loop_length:
  "length (fst (member_loop [] cs)) \<le> length cs \<and>
   (snd (member_loop [] cs) \<noteq> None \<longrightarrow> length (fst (member_loop [] cs)) < length cs)"
  by (induction cs)
     (auto simp: member_loop_single split: if_splits sum.splits option.splits attr_value.splits)

lemma member_loop_fails:
  "c \<in> set cs \<Longrightarrow> tag c = ''DW_TAG_member'' \<Longrightarrow>
   map_of (attributes c) ''DW_AT_data_member_location'' = None \<Longrightarrow>
   snd (member_loop [] cs) \<noteq> None"
  by (induction cs)
     (auto simp: member_loop_single split: if_splits sum.splits option.splits attr_value.splits)

section \<open>Resolving a name\<close>

text \<open>
  C1. A name that \<open>structs_by_name\<close> holds resolves to the struct stored there.
  The typedef dictionary plays no part: the result is the same whatever
  \<open>typedefs_by_name\<close> holds, a typedef of the same name included.
\<close>

theorem struct_name_shadows_typedef:
  assumes "structs_by_name ix name = Some s"
  shows "resolveStruct ix name = Inr s \<and>
         (\<forall>tds. resolveStruct (ix\<lparr>typedefs_by_name := tds\<rparr>) name = Inr s)"
  using assms by (simp add: resolveStruct_def struct_lookup_def)

theorem struct_name_shadows_typedef_witness:
  "structs_by_name example_indexes ''X'' = Some X_struct_A \<and>
   typedefs_by_name example_indexes ''X'' = Some X_typedef_A \<and>
   resolveStruct example_indexes ''X'' = Inr X_struct_A"
proof -
  have h: "structs_by_name example_indexes ''X'' = Some X_struct_A"
    by (simp add: example_indexes_def)
  have t: "typedefs_by_name example_indexes ''X'' = Some X_typedef_A"
    by (simp add: example_indexes_def)
  show ?thesis
    using h t struct_name_shadows_typedef [OF h] by simp
qed

text \<open>
  C2. For a name that \<open>structs_by_name\<close> lacks and \<open>typedefs_by_name\<close> holds, the
  struct is looked up in \<open>structs_by_offset\<close> at the value of the typedef's
  \<open>DW_AT_type\<close> plus the offset of the typedef's compilation unit; resolution succeeds
  with the struct found there, or fails with "could not find struct".
\<close>

theorem typedef_target_offset:
  assumes "structs_by_name ix name = None"
    and "typedefs_by_name ix name = Some td"
    and "map_of (attributes td) ''DW_AT_type'' = Some (IntVal v)"
  shows "struct_lookup ix name = Inr (structs_by_offset ix (v + cu_offset td)) \<and>
         resolveStruct ix name =
           (case structs_by_offset ix (v + cu_offset td) of
              None \<Rightarrow> Inl (Die_could_not_find_struct name)
            | Some s \<Rightarrow> Inr s)"
  using assms by (simp add: resolveStruct_def struct_lookup_def)

text \<open>
  In the example \<open>Point_t\<close> of unit A refers to 40 within its unit, which starts at 64;
  the struct at 104 is unit A's \<open>Point\<close>, not the \<open>Point\<close> that the name resolves to.
\<close>

theorem typedef_target_offset_witness:
  "structs_by_name example_indexes ''Point_t'' = None \<and>
   typedefs_by_name example_indexes ''Point_t'' = Some Point_t_A \<and>
   map_of (attributes Point_t_A) ''DW_AT_type'' = Some (IntVal 40) \<and>
   cu_offset Point_t_A = 64 \<and>
   structs_by_offset example_indexes 104 = Some Point_A \<and>
   resolveStruct example_indexes ''Point_t'' = Inr Point_A"
proof -
  have 1: "structs_by_name example_indexes ''Point_t'' = None"
    by (simp add: example_indexes_def)
  have 2: "typedefs_by_name example_indexes ''Point_t'' = Some Point_t_A"
    by (simp add: example_indexes_def)
  have 3: "map_of (attributes Point_t_A) ''DW_AT_type'' = Some (IntVal 40)"
    by (simp add: Point_t_A_def typedef_DIE_def)
  have 4: "cu_offset Point_t_A = 64"
    by (simp add: Point_t_A_def typedef_DIE_def)
  have 5: "structs_by_offset example_indexes 104 = Some Point_A"
    by (simp add: example_indexes_def)
  show ?thesis
    using 1 2 3 4 5 typedef_target_offset [OF 1 2 3] by simp
qed

text \<open>
  C3, as stated, fails. In the example \<open>Point_t\<close> names no struct and refers, in one
  step, to the indexed struct at 104, whose name is \<open>Point\<close>. Unit B has a struct of
  that name too, and the name belongs to the one read last: the run for \<open>Point_t\<close>
  prints \<open>y\<close> at 4, the run for \<open>Point\<close> prints \<open>y\<close> at 8.
\<close>

theorem typedef_and_struct_name_differ:
  "build (iter_CUs example_file) = Inr example_indexes \<and>
   structs_by_name example_indexes ''Point_t'' = None \<and>
   typedefs_by_name example_indexes ''Point_t'' = Some Point_t_A \<and>
   map_of (attributes Point_t_A) ''DW_AT_type'' = Some (IntVal 40) \<and>
   structs_by_offset example_indexes (40 + cu_offset Point_t_A) = Some Point_A \<and>
   DIE_to_name Point_A = Inr (Some ''Point'') \<and>
   main example_file ''Point_t'' =
     ([ClassHeader ''Point_t'', Constant (Some ''x'') 0, Constant (Some ''y'') 4, ClassFooter],
      None) \<and>
   main example_file ''Point'' =
     ([ClassHeader ''Point'', Constant (Some ''x'') 0, Constant (Some ''y'') 8, ClassFooter],
      None)"
proof -
  have i: "structs_by_name example_indexes ''Point_t'' = None"
    "typedefs_by_name example_indexes ''Point_t'' = Some Point_t_A"
    "map_of (attributes Point_t_A) ''DW_AT_type'' = Some (IntVal 40)"
    "structs_by_offset example_indexes (40 + cu_offset Point_t_A) = Some Point_A"
    by (simp_all add: example_indexes_def Point_t_A_def typedef_DIE_def)
  have n: "DIE_to_name Point_A = Inr (Some ''Point'')"
    by (simp add: DIE_to_name_def is_ascii_def Point_A_def struct_DIE_def)
  have t: "resolveStruct example_indexes ''Point_t'' = Inr Point_A"
    using i by (simp add: resolveStruct_def struct_lookup_def)
  have s: "resolveStruct example_indexes ''Point'' = Inr Point_B"
    by (simp add: resolveStruct_def struct_lookup_def example_indexes_def)
  have a: "main example_file ''Point_t'' =
     ([ClassHeader ''Point_t'', Constant (Some ''x'') 0, Constant (Some ''y'') 4, ClassFooter],
      None)"
    using t build_example
    by (simp add: main_def run_def print_class_def example_file_def DIE_to_name_def is_ascii_def
        Point_A_def struct_DIE_def member_DIE_def)
  have b: "main example_file ''Point'' =
     ([ClassHeader ''Point'', Constant (Some ''x'') 0, Constant (Some ''y'') 8, ClassFooter],
      None)"
    using s build_example
    by (simp add: main_def run_def print_class_def example_file_def DIE_to_name_def is_ascii_def
        Point_B_def struct_DIE_def member_DIE_def)
  show ?thesis
    using build_example i n a b by simp
qed

text \<open>
  C3, amended. Let the typedef \<open>T\<close> name no struct and refer, in one step, to the
  indexed struct \<open>S\<close>. Then the run for \<open>T\<close> prints, after its header, the lines
  that printing the record \<open>S\<close> gives under any name, and ends the same way; and so
  does the run for every name that \<open>structs_by_name\<close> maps to \<open>S\<close>. Whether the
  name of \<open>S\<close> is such a name is not promised: \<open>S\<close> may have no name, and a struct
  of the same name read later takes the name over.
\<close>

theorem typedef_yields_members_of_target:
  assumes "structs_by_name ix T = None"
    and "typedefs_by_name ix T = Some td"
    and "map_of (attributes td) ''DW_AT_type'' = Some (IntVal v)"
    and "structs_by_offset ix (v + cu_offset td) = Some S"
  shows "\<exists>ms r. run ix T = (ClassHeader T # ms, r) \<and>
                (\<forall>N. print_class N S = (ClassHeader N # ms, r)) \<and>
                (\<forall>N. structs_by_name ix N = Some S \<longrightarrow> run ix N = (ClassHeader N # ms, r))"
proof -
  obtain ms r where p: "\<And>N. print_class N S = (ClassHeader N # ms, r)"
    by (cases "snd (member_loop [] (iter_children S))") (simp_all add: print_class_shape)
  have "run ix T = print_class T S"
    using assms by (simp add: run_def resolveStruct_def struct_lookup_def)
  moreover have "run ix N = print_class N S" if "structs_by_name ix N = Some S" for N
    using that by (simp add: run_def resolveStruct_def struct_lookup_def)
  ultimately show ?thesis
    using p by auto
qed

text \<open>
  In the example \<open>Rect_t\<close> refers to the only struct called \<open>Rect\<close>, and
  \<open>Size_t\<close> to a struct with no name.
\<close>

theorem typedef_yields_members_of_target_witness:
  "structs_by_offset example_indexes (100 + cu_offset Rect_t_B) = Some Rect_B \<and>
   structs_by_name example_indexes ''Rect'' = Some Rect_B \<and>
   run example_indexes ''Rect_t'' =
     ([ClassHeader ''Rect_t'', Constant (Some ''m1'') 0, Constant (Some ''m2'') 4, ClassFooter],
      None) \<and>
   run example_indexes ''Rect'' =
     ([ClassHeader ''Rect'', Constant (Some ''m1'') 0, Constant (Some ''m2'') 4, ClassFooter],
      None) \<and>
   structs_by_offset example_indexes (60 + cu_offset Size_t_B) = Some Size_B \<and>
   DIE_to_name Size_B = Inr None \<and>
   run example_indexes ''Size_t'' =
     ([ClassHeader ''Size_t'', Constant (Some ''w'') 0, Constant (Some ''h'') 2, ClassFooter],
      None)"
proof -
  have 1: "structs_by_name example_indexes ''Rect_t'' = None"
    by (simp add: example_indexes_def)
  have 2: "typedefs_by_name example_indexes ''Rect_t'' = Some Rect_t_B"
    by (simp add: example_indexes_def)
  have 3: "map_of (attributes Rect_t_B) ''DW_AT_type'' = Some (IntVal 100)"
    by (simp add: Rect_t_B_def typedef_DIE_def)
  have 4: "structs_by_offset example_indexes (100 + cu_offset Rect_t_B) = Some Rect_B"
    by (simp add: example_indexes_def Rect_t_B_def typedef_DIE_def)
  have 5: "structs_by_name example_indexes ''Rect'' = Some Rect_B"
    by (simp add: example_indexes_def)
  have 6: "print_class N Rect_B =
     ([ClassHeader N, Constant (Some ''m1'') 0, Constant (Some ''m2'') 4, ClassFooter], None)"
    for N
    by (simp add: print_class_def DIE_to_name_def is_ascii_def Rect_B_def struct_DIE_def
        member_DIE_def)
  have s1: "structs_by_name example_indexes ''Size_t'' = None"
    by (simp add: example_indexes_def)
  have s2: "typedefs_by_name example_indexes ''Size_t'' = Some Size_t_B"
    by (simp add: example_indexes_def)
  have s3: "map_of (attributes Size_t_B) ''DW_AT_type'' = Some (IntVal 60)"
    by (simp add: Size_t_B_def typedef_DIE_def)
  have s4: "structs_by_offset example_indexes (60 + cu_offset Size_t_B) = Some Size_B"
    by (simp add: example_indexes_def Size_t_B_def typedef_DIE_def)
  have s5: "DIE_to_name Size_B = Inr None"
    by (simp add: DIE_to_name_def Size_B_def)
  have s6: "print_class N Size_B =
     ([ClassHeader N, Constant (Some ''w'') 0, Constant (Some ''h'') 2, ClassFooter], None)"
    for N
    by (simp add: print_class_def DIE_to_name_def is_ascii_def Size_B_def member_DIE_def)
  from typedef_yields_members_of_target [OF 1 2 3 4] 5 6 [of "''Rect_t''"] 6 [of "''Rect''"]
  have r: "run example_indexes ''Rect_t'' =
     ([ClassHeader ''Rect_t'', Constant (Some ''m1'') 0, Constant (Some ''m2'') 4, ClassFooter],
      None) \<and>
   run example_indexes ''Rect'' =
     ([ClassHeader ''Rect'', Constant (Some ''m1'') 0, Constant (Some ''m2'') 4, ClassFooter],
      None)"
    by auto
  from typedef_yields_members_of_target [OF s1 s2 s3 s4] s6 [of "''Size_t''"]
  have "run example_indexes ''Size_t'' =
     ([ClassHeader ''Size_t'', Constant (Some ''w'') 0, Constant (Some ''h'') 2, ClassFooter],
      None)"
    by auto
  with r 4 5 s4 s5 show ?thesis by simp
qed

text \<open>
  C4. A name that neither \<open>structs_by_name\<close> nor \<open>typedefs_by_name\<close> holds fails
  with "could not find struct" and nothing else. So does a typedef whose target offset
  is no key of \<open>structs_by_offset\<close>; and after the build that is the case whenever
  no structure record starts at the target offset, for instance when the record there
  is a base type or another typedef: a chain of typedefs is not followed.
\<close>

theorem not_found_is_StructNotFound:
  "(structs_by_name ix name = None \<and> typedefs_by_name ix name = None
      \<longrightarrow> resolveStruct ix name = Inl (Die_could_not_find_struct name)) \<and>
   (structs_by_name ix name = None \<and> typedefs_by_name ix name = Some td \<and>
    map_of (attributes td) ''DW_AT_type'' = Some (IntVal v) \<and>
    structs_by_offset ix (v + cu_offset td) = None
      \<longrightarrow> resolveStruct ix name = Inl (Die_could_not_find_struct name)) \<and>
   (build cus = Inr ix \<and>
    structs_by_name ix name = None \<and> typedefs_by_name ix name = Some td \<and>
    map_of (attributes td) ''DW_AT_type'' = Some (IntVal v) \<and>
    (\<forall>d\<in>set (concat cus). offset d = v + cu_offset td \<longrightarrow> tag d \<noteq> ''DW_TAG_structure_type'')
      \<longrightarrow> resolveStruct ix name = Inl (Die_could_not_find_struct name))"
proof -
  have "structs_by_offset ix (v + cu_offset td) = None"
    if b: "build cus = Inr ix"
    and t: "\<forall>d\<in>set (concat cus). offset d = v + cu_offset td \<longrightarrow> tag d \<noteq> ''DW_TAG_structure_type''"
  proof -
    have "find (is_struct_at (v + cu_offset td)) (rev (concat cus)) = None"
      using t by (auto simp: find_None_iff is_struct_at_def)
    then show ?thesis
      using index_DIEs_structs_by_offset [of empty_indexes "concat cus" ix "v + cu_offset td"] b
      by (simp add: build_def index_CUs_concat empty_indexes_def)
  qed
  then show ?thesis
    by (auto simp: resolveStruct_def struct_lookup_def)
qed

text \<open>
  In the example \<open>Point_tt\<close> refers to the typedef \<open>Point_t\<close>, which refers to a
  struct, and \<open>myint\<close> refers to the base type \<open>int\<close>.
\<close>

theorem not_found_is_StructNotFound_witness:
  "resolveStruct example_indexes ''nothing'' = Inl (Die_could_not_find_struct ''nothing'') \<and>
   typedefs_by_name example_indexes ''Point_tt'' = Some Point_tt_A \<and>
   66 + cu_offset Point_tt_A = offset Point_t_A \<and>
   resolveStruct example_indexes ''Point_tt'' = Inl (Die_could_not_find_struct ''Point_tt'') \<and>
   typedefs_by_name example_indexes ''myint'' = Some myint_B \<and>
   90 + cu_offset myint_B = offset int_B \<and>
   resolveStruct example_indexes ''myint'' = Inl (Die_could_not_find_struct ''myint'')"
proof -
  have a: "structs_by_name example_indexes ''nothing'' = None \<and>
           typedefs_by_name example_indexes ''nothing'' = None"
    by (simp add: example_indexes_def)
  have b: "structs_by_name example_indexes ''Point_tt'' = None \<and>
           typedefs_by_name example_indexes ''Point_tt'' = Some Point_tt_A \<and>
           map_of (attributes Point_tt_A) ''DW_AT_type'' = Some (IntVal 66) \<and>
           structs_by_offset example_indexes (66 + cu_offset Point_tt_A) = None"
    by (simp add: example_indexes_def Point_tt_A_def typedef_DIE_def)
  have c: "structs_by_name example_indexes ''myint'' = None \<and>
           typedefs_by_name example_indexes ''myint'' = Some myint_B \<and>
           map_of (attributes myint_B) ''DW_AT_type'' = Some (IntVal 90) \<and>
           (\<forall>d\<in>set (concat (iter_CUs example_file)).
              offset d = 90 + cu_offset myint_B \<longrightarrow> tag d \<noteq> ''DW_TAG_structure_type'')"
    by (simp add: example_indexes_def example_defs)
  have o: "66 + cu_offset Point_tt_A = offset Point_t_A" "90 + cu_offset myint_B = offset int_B"
    by (simp_all add: Point_tt_A_def Point_t_A_def myint_B_def int_B_def typedef_DIE_def)
  from not_found_is_StructNotFound [of example_indexes "''nothing''"] a
       not_found_is_StructNotFound [of example_indexes "''Point_tt''" Point_tt_A 66] b
       not_found_is_StructNotFound
         [of example_indexes "''myint''" myint_B 90 "iter_CUs example_file"] c build_example o
  show ?thesis by simp
qed

text \<open>
  C9. For a name that is no struct's and is the name of a typedef with no
  \<open>DW_AT_type\<close>, the subscript of line 72 raises \<open>KeyError\<close>: the run ends with
  that exception, not with "could not find struct", and prints nothing.
\<close>

theorem typedef_without_type_raises_KeyError:
  assumes "structs_by_name ix name = None"
    and "typedefs_by_name ix name = Some td"
    and "map_of (attributes td) ''DW_AT_type'' = None"
  shows "resolveStruct ix name = Inl (KeyError ''DW_AT_type'') \<and>
         resolveStruct ix name \<noteq> Inl (Die_could_not_find_struct name) \<and>
         run ix name = ([], Some (KeyError ''DW_AT_type''))"
  using assms by (simp add: run_def resolveStruct_def struct_lookup_def)

theorem typedef_without_type_raises_KeyError_witness:
  "typedefs_by_name example_indexes ''void_t'' = Some void_t_A \<and>
   map_of (attributes void_t_A) ''DW_AT_type'' = None \<and>
   run example_indexes ''void_t'' = ([], Some (KeyError ''DW_AT_type''))"
proof -
  have 1: "structs_by_name example_indexes ''void_t'' = None"
    by (simp add: example_indexes_def)
  have 2: "typedefs_by_name example_indexes ''void_t'' = Some void_t_A"
    by (simp add: example_indexes_def)
  have 3: "map_of (attributes void_t_A) ''DW_AT_type'' = None"
    by (simp add: void_t_A_def)
  show ?thesis
    using 2 3 typedef_without_type_raises_KeyError [OF 1 2 3] by simp
qed

section \<open>Building the dictionaries\<close>

text \<open>
  C8. When the build succeeds, each dictionary holds under a key the last record, in
  the order the units and their records are read, that the loop enters under that key:
  the last struct of a name, the last typedef of a name, the last struct at an offset.
  Every structure record, named or not, has its offset as a key of
  \<open>structs_by_offset\<close>, bound to a structure record at that offset.
\<close>

theorem last_one_wins:
  assumes "build cus = Inr ix"
  shows "structs_by_name ix n = find (is_struct_named n) (rev (concat cus)) \<and>
         typedefs_by_name ix n = find (is_typedef_named n) (rev (concat cus)) \<and>
         structs_by_offset ix k = find (is_struct_at k) (rev (concat cus)) \<and>
         (\<forall>d\<in>set (concat cus). tag d = ''DW_TAG_structure_type'' \<longrightarrow>
            (\<exists>e. structs_by_offset ix (offset d) = Some e \<and> is_struct_at (offset d) e))"
proof -
  have b: "index_DIEs empty_indexes (concat cus) = Inr ix"
    using assms by (simp add: build_def index_CUs_concat)
  have off: "structs_by_offset ix k = find (is_struct_at k) (rev (concat cus))" for k
    using index_DIEs_structs_by_offset [OF b, of k]
    by (simp add: empty_indexes_def split: option.splits)
  have "\<exists>e. structs_by_offset ix (offset d) = Some e \<and> is_struct_at (offset d) e"
    if "d \<in> set (concat cus)" "tag d = ''DW_TAG_structure_type''" for d
  proof -
    have "is_struct_at (offset d) d" using that(2) by (simp add: is_struct_at_def)
    with that(1) have "find (is_struct_at (offset d)) (rev (concat cus)) \<noteq> None"
      unfolding find_None_iff set_rev by blast
    then obtain e where e: "find (is_struct_at (offset d)) (rev (concat cus)) = Some e"
      by auto
    then have "is_struct_at (offset d) e"
      by (auto simp: find_Some_iff)
    with e show ?thesis by (simp add: off)
  qed
  moreover have "structs_by_name ix n = find (is_struct_named n) (rev (concat cus))"
    using index_DIEs_structs_by_name [OF b, of n]
    by (simp add: empty_indexes_def split: option.splits)
  moreover have "typedefs_by_name ix n = find (is_typedef_named n) (rev (concat cus))"
    using index_DIEs_typedefs_by_name [OF b, of n]
    by (simp add: empty_indexes_def split: option.splits)
  ultimately show ?thesis using off by blast
qed

text \<open>
  In the example both units have a \<open>struct Point\<close> and a typedef \<open>myint\<close>, and the
  struct behind \<open>Size_t\<close> has no name.
\<close>

theorem last_one_wins_witness:
  "build (iter_CUs example_file) = Inr example_indexes \<and>
   is_struct_named ''Point'' Point_A \<and> is_struct_named ''Point'' Point_B \<and>
   structs_by_name example_indexes ''Point'' = Some Point_B \<and>
   is_typedef_named ''myint'' myint_A \<and> is_typedef_named ''myint'' myint_B \<and>
   typedefs_by_name example_indexes ''myint'' = Some myint_B \<and>
   DIE_to_name Size_B = Inr None \<and>
   structs_by_offset example_indexes (offset Size_B) = Some Size_B \<and>
   structs_by_offset example_indexes (offset Point_A) = Some Point_A"
proof -
  have n: "is_struct_named ''Point'' Point_A" "is_struct_named ''Point'' Point_B"
    "is_typedef_named ''myint'' myint_A" "is_typedef_named ''myint'' myint_B"
    "DIE_to_name Size_B = Inr None"
    by (simp_all add: find_defs Point_A_def Point_B_def myint_A_def myint_B_def Size_B_def
        struct_DIE_def typedef_DIE_def)
  have f: "find (is_struct_named ''Point'') (rev (concat (iter_CUs example_file))) = Some Point_B"
    "find (is_typedef_named ''myint'') (rev (concat (iter_CUs example_file))) = Some myint_B"
    "find (is_struct_at (offset Size_B)) (rev (concat (iter_CUs example_file))) = Some Size_B"
    "find (is_struct_at (offset Point_A)) (rev (concat (iter_CUs example_file))) = Some Point_A"
    by (simp_all add: find_defs example_defs)
  from last_one_wins [OF build_example, of "''Point''" "offset Size_B"]
       last_one_wins [OF build_example, of "''myint''" "offset Point_A"]
       build_example n f
  show ?thesis by simp
qed

section \<open>Printing the members\<close>

text \<open>
  C7, as stated, fails. In the DWARF 2 file both children of \<open>struct Rect\<close> are
  members with a name and a \<open>DW_AT_data_member_location\<close>, \<open>m1\<close> at 0 and
  \<open>m2\<close> at 4; the attribute is a block, \<open>%x\<close> of line 83 refuses it, and the run
  ends with \<open>TypeError\<close> after the header.
\<close>

theorem block_offset_raises_TypeError:
  "iter_children Rect_dwarf2 = [m1_dwarf2, m2_dwarf2] \<and>
   tag m1_dwarf2 = ''DW_TAG_member'' \<and>
   map_of (attributes m1_dwarf2) ''DW_AT_name'' = Some (BytesVal ''m1'') \<and>
   map_of (attributes m1_dwarf2) ''DW_AT_data_member_location'' = Some (ListVal [35, 0]) \<and>
   tag m2_dwarf2 = ''DW_TAG_member'' \<and>
   map_of (attributes m2_dwarf2) ''DW_AT_name'' = Some (BytesVal ''m2'') \<and>
   map_of (attributes m2_dwarf2) ''DW_AT_data_member_location'' = Some (ListVal [35, 4]) \<and>
   main dwarf2_file ''Rect'' = ([ClassHeader ''Rect''], Some TypeError)"
  by (simp add: run_defs dwarf2_file_def Rect_dwarf2_def m1_dwarf2_def m2_dwarf2_def
      struct_DIE_def)

text \<open>
  C7, amended. When every child of the resolved struct is a member whose
  \<open>DW_AT_name\<close> is a byte string of ASCII characters and whose
  \<open>DW_AT_data_member_location\<close> is an integer, the run prints the header, then one
  constant per child with that child's name and that integer as it is, in the order of
  the children, then the footer, and succeeds.
\<close>

theorem members_in_declaration_order:
  assumes "resolveStruct ix name = Inr s"
    and "\<forall>c\<in>set (iter_children s).
           tag c = ''DW_TAG_member'' \<and>
           map_of (attributes c) ''DW_AT_name'' = Some (BytesVal (nm c)) \<and> is_ascii (nm c) \<and>
           map_of (attributes c) ''DW_AT_data_member_location'' = Some (IntVal (off c))"
  shows "run ix name =
           (ClassHeader name # map (\<lambda>c. Constant (Some (nm c)) (off c)) (iter_children s)
              @ [ClassFooter], None)"
proof -
  have "\<forall>p\<in>set (iter_children s). tag p = ''DW_TAG_member'' \<and>
          DIE_to_name p = Inr ((Some \<circ> nm) p) \<and>
          map_of (attributes p) ''DW_AT_data_member_location'' = Some (IntVal (off p))"
    using assms(2) by (simp add: DIE_to_name_def)
  from member_loop_prefix [OF this, of "[ClassHeader name]" "[]"]
  show ?thesis
    using assms(1) by (simp add: run_def print_class_def)
qed

text \<open>The struct of the claim with integer offsets: \<open>m1\<close> at 0 and \<open>m2\<close> at 4.\<close>

theorem members_in_declaration_order_witness:
  "resolveStruct example_indexes ''Rect'' = Inr Rect_B \<and>
   iter_children Rect_B = [member_DIE ''m1'' 0 305 200, member_DIE ''m2'' 4 310 200] \<and>
   run example_indexes ''Rect'' =
     ([ClassHeader ''Rect'', Constant (Some ''m1'') 0, Constant (Some ''m2'') 4, ClassFooter],
      None)"
proof -
  let ?nm = "\<lambda>c. if offset c = 305 then ''m1'' else ''m2''"
  let ?off = "\<lambda>c. if offset c = 305 then (0::int) else 4"
  have 1: "resolveStruct example_indexes ''Rect'' = Inr Rect_B"
    by (simp add: resolveStruct_def struct_lookup_def example_indexes_def)
  have 2: "iter_children Rect_B = [member_DIE ''m1'' 0 305 200, member_DIE ''m2'' 4 310 200]"
    by (simp add: Rect_B_def struct_DIE_def)
  have 3: "\<forall>c\<in>set (iter_children Rect_B).
           tag c = ''DW_TAG_member'' \<and>
           map_of (attributes c) ''DW_AT_name'' = Some (BytesVal (?nm c)) \<and> is_ascii (?nm c) \<and>
           map_of (attributes c) ''DW_AT_data_member_location'' = Some (IntVal (?off c))"
    by (simp add: 2 member_DIE_def is_ascii_def)
  from members_in_declaration_order [OF 1 3] 1 2 show ?thesis
    by (simp add: member_DIE_def)
qed

text \<open>
  C5. A member with no \<open>DW_AT_name\<close> does not stop the run. For \<open>struct Holey\<close>
  the run succeeds, and the line for the unnamed member declares a constant called
  \<open>None\<close>, the text of Python's \<open>None\<close> under \<open>%s\<close>.
\<close>

theorem anonymous_member_printed_as_None:
  "main example_file ''Holey'' =
     ([ClassHeader ''Holey'', Constant None 0, Constant (Some ''tail'') 4, ClassFooter], None) \<and>
   map render (fst (main example_file ''Holey'')) =
     [''final class Holey {'', ''  public static final int None = 0x0;'',
      ''  public static final int tail = 0x4;'', ''}'']"
proof -
  have r: "resolveStruct example_indexes ''Holey'' = Inr Holey_B"
    by (simp add: resolveStruct_def struct_lookup_def example_indexes_def)
  have m: "main example_file ''Holey'' =
     ([ClassHeader ''Holey'', Constant None 0, Constant (Some ''tail'') 4, ClassFooter], None)"
    using r build_example
    by (simp add: main_def run_def print_class_def example_file_def DIE_to_name_def is_ascii_def
        Holey_B_def struct_DIE_def member_DIE_def)
  show ?thesis
    by (simp add: m fmt_s_def fmt_x_def hex_nat.simps hex_digit_def)
qed

text \<open>
  C6, as stated, fails. \<open>struct Broken\<close> has a member with no
  \<open>DW_AT_data_member_location\<close>; the run fails, but the header and the constant of
  the member before it are already on standard output.
\<close>

theorem missing_offset_leaves_partial_output:
  "main example_file ''Broken'' =
     ([ClassHeader ''Broken'', Constant (Some ''a'') 0],
      Some (KeyError ''DW_AT_data_member_location'')) \<and>
   fst (main example_file ''Broken'') \<noteq> []"
proof -
  have r: "resolveStruct example_indexes ''Broken'' = Inr Broken_B"
    by (simp add: resolveStruct_def struct_lookup_def example_indexes_def)
  have m: "main example_file ''Broken'' =
     ([ClassHeader ''Broken'', Constant (Some ''a'') 0],
      Some (KeyError ''DW_AT_data_member_location''))"
    using r build_example
    by (simp add: main_def run_def print_class_def example_file_def DIE_to_name_def is_ascii_def
        Broken_B_def struct_DIE_def member_DIE_def)
  show ?thesis by (simp add: m)
qed

text \<open>
  C6, amended. When some child of the resolved struct is a member with no
  \<open>DW_AT_data_member_location\<close>, the run fails and does not print the footer; its
  output is the header followed by constants only, fewer than the struct has children.
  When moreover every child before that member is a member whose name reads without
  error and whose offset is an integer, and the name of that member reads without error
  too, the error is the \<open>KeyError\<close> of line 82 and the constants printed are those of
  the members before it.
\<close>

theorem missing_offset_never_completes:
  assumes "resolveStruct ix name = Inr s"
    and "c \<in> set (iter_children s)"
    and "tag c = ''DW_TAG_member''"
    and "map_of (attributes c) ''DW_AT_data_member_location'' = None"
  shows "(\<exists>ms e. run ix name = (ClassHeader name # ms, Some e) \<and>
            (\<forall>l\<in>set ms. \<exists>n k. l = Constant n k) \<and> ClassFooter \<notin> set ms \<and>
            length ms < length (iter_children s)) \<and>
         (iter_children s = pre @ c # post \<and>
          (\<forall>p\<in>set pre. tag p = ''DW_TAG_member'' \<and> DIE_to_name p = Inr (nm p) \<and>
             map_of (attributes p) ''DW_AT_data_member_location'' = Some (IntVal (off p))) \<and>
          DIE_to_name c = Inr n
          \<longrightarrow> run ix name =
                (ClassHeader name # map (\<lambda>p. Constant (nm p) (off p)) pre,
                 Some (KeyError ''DW_AT_data_member_location'')))"
proof
  let ?ms = "fst (member_loop [] (iter_children s))"
  from member_loop_fails [OF assms(2-4)]
  obtain e where e: "snd (member_loop [] (iter_children s)) = Some e"
    by auto
  then have "run ix name = (ClassHeader name # ?ms, Some e)"
    using assms(1) by (simp add: run_def print_class_shape)
  moreover have c: "\<forall>l\<in>set ?ms. \<exists>n k. l = Constant n k"
    using member_loop_Constants by blast
  moreover from c have "ClassFooter \<notin> set ?ms"
    by auto
  moreover have "length ?ms < length (iter_children s)"
    using member_loop_length [of "iter_children s"] e by simp
  ultimately show "\<exists>ms e. run ix name = (ClassHeader name # ms, Some e) \<and>
            (\<forall>l\<in>set ms. \<exists>n k. l = Constant n k) \<and> ClassFooter \<notin> set ms \<and>
            length ms < length (iter_children s)"
    by blast
next
  show "iter_children s = pre @ c # post \<and>
          (\<forall>p\<in>set pre. tag p = ''DW_TAG_member'' \<and> DIE_to_name p = Inr (nm p) \<and>
             map_of (attributes p) ''DW_AT_data_member_location'' = Some (IntVal (off p))) \<and>
          DIE_to_name c = Inr n
          \<longrightarrow> run ix name =
                (ClassHeader name # map (\<lambda>p. Constant (nm p) (off p)) pre,
                 Some (KeyError ''DW_AT_data_member_location''))"
  proof
    assume h: "iter_children s = pre @ c # post \<and>
          (\<forall>p\<in>set pre. tag p = ''DW_TAG_member'' \<and> DIE_to_name p = Inr (nm p) \<and>
             map_of (attributes p) ''DW_AT_data_member_location'' = Some (IntVal (off p))) \<and>
          DIE_to_name c = Inr n"
    then have p: "\<forall>p\<in>set pre. tag p = ''DW_TAG_member'' \<and> DIE_to_name p = Inr (nm p) \<and>
             map_of (attributes p) ''DW_AT_data_member_location'' = Some (IntVal (off p))"
      by blast
    show "run ix name =
                (ClassHeader name # map (\<lambda>p. Constant (nm p) (off p)) pre,
                 Some (KeyError ''DW_AT_data_member_location''))"
      using assms(1,3,4) h member_loop_prefix [OF p, of "[ClassHeader name]" "c # post"]
      by (simp add: run_def print_class_def)
  qed
qed

theorem missing_offset_never_completes_witness:
  "resolveStruct example_indexes ''Broken'' = Inr Broken_B \<and>
   iter_children Broken_B =
     [member_DIE ''a'' 0 365 200] @
     DIE ''DW_TAG_member'' [(''DW_AT_name'', BytesVal ''b'')] 370 200 [] #
     [member_DIE ''c'' 8 375 200] \<and>
   run example_indexes ''Broken'' =
     ([ClassHeader ''Broken'', Constant (Some ''a'') 0],
      Some (KeyError ''DW_AT_data_member_location''))"
proof -
  let ?b = "DIE ''DW_TAG_member'' [(''DW_AT_name'', BytesVal ''b'')] 370 200 []"
  have 1: "resolveStruct example_indexes ''Broken'' = Inr Broken_B"
    by (simp add: resolveStruct_def struct_lookup_def example_indexes_def)
  have 2: "iter_children Broken_B = [member_DIE ''a'' 0 365 200] @ ?b # [member_DIE ''c'' 8 375 200]"
    by (simp add: Broken_B_def struct_DIE_def)
  have m: "?b \<in> set (iter_children Broken_B)"
    by (simp add: 2)
  have 3: "\<forall>p\<in>set [member_DIE ''a'' 0 365 200].
             tag p = ''DW_TAG_member'' \<and> DIE_to_name p = Inr ((\<lambda>_. Some ''a'') p) \<and>
             map_of (attributes p) ''DW_AT_data_member_location'' = Some (IntVal ((\<lambda>_. 0) p))"
    by (simp add: member_DIE_def DIE_to_name_def is_ascii_def)
  have 4: "tag ?b = ''DW_TAG_member''" by simp
  have 5: "DIE_to_name ?b = Inr (Some ''b'')" by (simp add: DIE_to_name_def is_ascii_def)
  have 6: "map_of (attributes ?b) ''DW_AT_data_member_location'' = None" by simp
  from missing_offset_never_completes [OF 1 m 4 6,
      of "[member_DIE ''a'' 0 365 200]" "[member_DIE ''c'' 8 375 200]"
         "\<lambda>_. Some ''a''" "\<lambda>_. 0" "Some ''b''"] 1 2 3 5
  show ?thesis by simp
qed

text \<open>
  C10. A run that succeeds has printed the header with \<open>args.struct\<close> as the class
  name, then the constants, then the footer. The struct's own name is not used.
\<close>

theorem header_is_query_name:
  assumes "main f name = (out, None)"
  shows "\<exists>ms. out = ClassHeader name # ms @ [ClassFooter] \<and>
              map render out = (''final class '' @ name @ '' {'') # map render ms @ [''}'']"
proof -
  from assms obtain ix s where "print_class name s = (out, None)"
    by (auto simp: main_def run_def split: if_splits sum.splits)
  then have "out = ClassHeader name # fst (member_loop [] (iter_children s)) @ [ClassFooter]"
    by (auto simp: print_class_shape split: option.splits)
  then show ?thesis by simp
qed

text \<open>
  In the example \<open>Point_t\<close> resolves to a struct whose name is \<open>Point\<close>; the class
  is called \<open>Point_t\<close>.
\<close>

theorem header_is_query_name_witness:
  "resolveStruct example_indexes ''Point_t'' = Inr Point_A \<and>
   DIE_to_name Point_A = Inr (Some ''Point'') \<and>
   main example_file ''Point_t'' =
     ([ClassHeader ''Point_t'', Constant (Some ''x'') 0, Constant (Some ''y'') 4, ClassFooter],
      None)"
proof -
  have r: "resolveStruct example_indexes ''Point_t'' = Inr Point_A"
    by (simp add: resolveStruct_def struct_lookup_def example_indexes_def Point_t_A_def
        typedef_DIE_def)
  have n: "DIE_to_name Point_A = Inr (Some ''Point'')"
    by (simp add: DIE_to_name_def is_ascii_def Point_A_def struct_DIE_def)
  have m: "main example_file ''Point_t'' =
     ([ClassHeader ''Point_t'', Constant (Some ''x'') 0, Constant (Some ''y'') 4, ClassFooter],
      None)"
    using r build_example
    by (simp add: main_def run_def print_class_def example_file_def DIE_to_name_def is_ascii_def
        Point_A_def struct_DIE_def member_DIE_def)
  from header_is_query_name [OF m] r n m show ?thesis by simp
qed

end
